theory Spec2Isabelle
  imports Main
begin

section \<open>Cache keys\<close>

text \<open>
  \<^verbatim>\<open>CacheKey\<close> identifies a VM and snapshot pair. \<^verbatim>\<open>String\<close> is
  \<^verbatim>\<open>fmt.Sprintf("%s:%s", k.VMName, k.SnapshotName)\<close>; \<^verbatim>\<open>Hash\<close> is the hex
  encoding of the SHA-256 digest of that string. The digest is computed by the Go standard
  library, so \<open>Hash\<close> takes that function (digest, then hex encoding) as its first argument.
\<close>

record CacheKey =
  VMName :: string
  SnapshotName :: string

definition String :: "CacheKey \<Rightarrow> string" where
  "String k = VMName k @ '':'' @ SnapshotName k"

definition Hash :: "(string \<Rightarrow> string) \<Rightarrow> CacheKey \<Rightarrow> string" where
  "Hash sha256_hex k = sha256_hex (String k)"

section \<open>The in-memory cache\<close>

text \<open>
  \<^verbatim>\<open>virtInspectorMemoryCache\<close> wraps a Go map from the key's string form to a pointer.
  A pointer is an option (\<open>None\<close> is \<^verbatim>\<open>nil\<close>); reading a key the map does not hold
  gives the zero value \<^verbatim>\<open>nil\<close>, as reading a stored \<^verbatim>\<open>nil\<close> does.
\<close>

type_synonym 'v memoryCache = "string \<rightharpoonup> 'v option"

definition newMemoryCache :: "'v memoryCache" where
  "newMemoryCache = Map.empty"

definition cache_get :: "'v memoryCache \<Rightarrow> CacheKey \<Rightarrow> 'v option" where
  "cache_get c key = (case c (String key) of None \<Rightarrow> None | Some p \<Rightarrow> p)"

definition cache_set :: "'v memoryCache \<Rightarrow> CacheKey \<Rightarrow> 'v option \<Rightarrow> 'v memoryCache" where
  "cache_set c key data = c(String key \<mapsto> data)"

section \<open>Errors, outcomes and the inspection data\<close>

text \<open>
  A Go \<^verbatim>\<open>error\<close> is a value: one produced outside this code (\<open>ExternalError\<close>), an
  \<^verbatim>\<open>*exec.ExitError\<close> with its exit code, or the result of \<^verbatim>\<open>fmt.Errorf\<close>, kept as
  the format string and its arguments (the \<^verbatim>\<open>%w\<close> argument is the wrapped error).

  A call either returns, panics (a nil pointer dereference), or blocks for ever.
\<close>

datatype error = ExternalError string | ExitError int | Errorf string "fmtarg list"
and fmtarg = ArgInt int | ArgString string | ArgError error

datatype 'a outcome = Returns 'a | Panics | Blocks

datatype Logger = Logger

record VirtInspectorApplication =
  app_Name :: string
  app_Version :: string
  app_Epoch :: int
  app_Release :: string
  app_Arch :: string
  app_URL :: string
  app_Summary :: string
  app_Description :: string

record VirtInspectorFilesystem =
  fs_Device :: string
  fs_Type :: string
  fs_UUID :: string

record VirtInspectorMountpoint =
  Device :: string
  MountPoint :: string

record VirtInspectorOS =
  Name :: string
  Distro :: string
  MajorVersion :: string
  MinorVersion :: string
  Architecture :: string
  Hostname :: string
  Product :: string
  Root :: string
  PackageFormat :: string
  PackageManagement :: string
  OSInfo :: string
  Applications :: "VirtInspectorApplication list"
  Filesystems :: "VirtInspectorFilesystem list"
  Mountpoints :: "VirtInspectorMountpoint list"
  Drives :: "string list"

record VirtInspectorXML =
  Operatingsystems :: "VirtInspectorOS list"

record SnapshotDiskInfo =
  VMMoref :: string
  SnapshotMoref :: string
  DiskPaths :: "string list"
  BaseDiskPaths :: "string list"
  ComputeResourcePath :: string

section \<open>Sessions and the world outside the program\<close>

text \<open>
  \<^verbatim>\<open>V2VSession\<close> holds the NBD endpoint, the \<^verbatim>\<open>*exec.Cmd\<close> of the spawned
  \<^verbatim>\<open>virt-v2v-open\<close> (whose \<^verbatim>\<open>Process\<close> is set once it has started) and the path
  of the libvirt auth file. A process is named by its pid.
\<close>

record Cmd =
  Path :: string
  Args :: "string list"
  Env :: "string list"
  Process :: "nat option"

record V2VSession =
  NBDURL :: string
  cmd :: "Cmd option"
  authFile :: string

text \<open>
  Everything the code calls but does not define is a parameter: each operation takes the
  state \<open>'w\<close> of the world outside the program and returns its result with the new
  state. \<open>os_calls\<close> are the three calls of Go's \<^verbatim>\<open>os\<close> package that closing a session
  makes. \<open>collaborators\<close> adds the file \<^verbatim>\<open>internal/inspection/nbdkit_vddk.go\<close>, which is
  not among the sources (\<^verbatim>\<open>OpenWithNBDKitVDDK\<close> and the \<^verbatim>\<open>NBDURL\<close> field,
  \<^verbatim>\<open>WaitForReady\<close> and \<^verbatim>\<open>Close\<close> of the \<^verbatim>\<open>NBDKitSession\<close> it returns, a handle
  of type \<open>'s\<close>), the shell command that runs \<^verbatim>\<open>virt-inspector\<close>, the remaining
  \<^verbatim>\<open>os\<close> calls, \<^verbatim>\<open>url.Parse(...).Hostname()\<close> and \<^verbatim>\<open>xml.Unmarshal\<close>.
\<close>

record 'w os_calls =
  Process_Kill :: "nat \<Rightarrow> 'w \<Rightarrow> error option \<times> 'w"
  Process_Wait :: "nat \<Rightarrow> 'w \<Rightarrow> error option \<times> 'w"
  os_Remove :: "string \<Rightarrow> 'w \<Rightarrow> error option \<times> 'w"

record ('w, 's) collaborators = "'w os_calls" +
  OpenWithNBDKitVDDK ::
    "string \<Rightarrow> string \<Rightarrow> string \<Rightarrow> string \<Rightarrow> string \<Rightarrow> string \<Rightarrow> 'w \<Rightarrow> (error + 's) \<times> 'w"
  NBDKit_NBDURL :: "'s \<Rightarrow> string"
  NBDKit_WaitForReady :: "'s \<Rightarrow> int \<Rightarrow> 'w \<Rightarrow> error option \<times> 'w"
  NBDKit_Close :: "'s \<Rightarrow> 'w \<Rightarrow> 'w"
  CombinedOutput :: "string \<Rightarrow> 'w \<Rightarrow> (string \<times> error option) \<times> 'w"
  Cmd_Start :: "Cmd \<Rightarrow> 'w \<Rightarrow> (error + nat) \<times> 'w"
  os_CreateTemp :: "'w \<Rightarrow> (error + string) \<times> 'w"
  File_WriteString :: "string \<Rightarrow> string \<Rightarrow> 'w \<Rightarrow> error option \<times> 'w"
  File_Close :: "string \<Rightarrow> 'w \<Rightarrow> error option \<times> 'w"
  os_Chmod :: "string \<Rightarrow> 'w \<Rightarrow> error option \<times> 'w"
  os_Environ :: "'w \<Rightarrow> string list"
  url_Hostname :: "string \<Rightarrow> error + string"
  xml_Unmarshal :: "string \<Rightarrow> error + VirtInspectorXML"

text \<open>
  The world as the model sees it: the outside state \<open>ext\<close>, and a record of what the
  program has done to it, which no operation reads: the session handles that opens
  returned (\<open>opened\<close>), the handles passed to a close (\<open>closed\<close>), the disk paths
  \<^verbatim>\<open>OpenWithNBDKitVDDK\<close> was called with (\<open>attempts\<close>), the handles whose readiness
  was awaited (\<open>waited\<close>), the commands run (\<open>tool_runs\<close>) and the reads and writes of
  the database (\<open>db_gets\<close>, \<open>db_sets\<close>).
\<close>

datatype 's session = NBDKitSession 's | V2V V2VSession

record ('w, 's) world =
  ext :: 'w
  opened :: "'s session list"
  closed :: "'s session list"
  attempts :: "string list"
  waited :: "'s session list"
  tool_runs :: "string list"
  db_gets :: "CacheKey list"
  db_sets :: "(CacheKey \<times> VirtInspectorXML option) list"

definition new_world :: "'w \<Rightarrow> ('w, 's) world" where
  "new_world e = \<lparr>ext = e, opened = [], closed = [], attempts = [], waited = [],
     tool_runs = [],
     db_gets = [], db_sets = []\<rparr>"

subsection \<open>virt-v2v-open sessions\<close>

text \<open>
  \<^verbatim>\<open>V2VSession.Close\<close>: nothing on a nil receiver; otherwise kill and reap the process
  when \<^verbatim>\<open>s.cmd\<close> and \<^verbatim>\<open>s.cmd.Process\<close> are set, and remove the auth file when its
  path is not empty. The errors of all three calls are dropped.
\<close>

definition V2VSession_Close ::
  "('w, 'm) os_calls_scheme \<Rightarrow> V2VSession option \<Rightarrow> 'w \<Rightarrow> 'w outcome" where
  "V2VSession_Close sys s w =
     (case s of
        None \<Rightarrow> Returns w
      | Some sv \<Rightarrow>
          (let w1 = (case cmd sv of
                       None \<Rightarrow> w
                     | Some c \<Rightarrow>
                         (case Process c of
                            None \<Rightarrow> w
                          | Some p \<Rightarrow> snd (Process_Wait sys p (snd (Process_Kill sys p w)))));
               w2 = (if authFile sv \<noteq> [] then snd (os_Remove sys (authFile sv) w1) else w1)
           in Returns w2))"

text \<open>
  A reference operating system for the three calls, after the documentation of Go's
  \<^verbatim>\<open>os\<close> package: a process is running, has exited and awaits its parent's wait, or
  has been reaped. \<^verbatim>\<open>Kill\<close> ends a running process and fails once the process has
  been reaped; \<^verbatim>\<open>Wait\<close> reaps the process and fails when that has happened already;
  \<^verbatim>\<open>Remove\<close> deletes a file and fails when there is none.
\<close>

datatype proc_status = Running | Exited | Reaped

record os_state =
  procs :: "nat \<Rightarrow> proc_status"
  files :: "string set"

definition ref_Kill :: "nat \<Rightarrow> os_state \<Rightarrow> error option \<times> os_state" where
  "ref_Kill p w =
     (case procs w p of
        Running \<Rightarrow> (None, w\<lparr>procs := (procs w)(p := Exited)\<rparr>)
      | Exited \<Rightarrow> (None, w)
      | Reaped \<Rightarrow> (Some (ExternalError ''os: process already finished''), w))"

definition ref_Wait :: "nat \<Rightarrow> os_state \<Rightarrow> error option \<times> os_state" where
  "ref_Wait p w =
     (case procs w p of
        Reaped \<Rightarrow> (Some (ExternalError ''wait: no child processes''), w)
      | _ \<Rightarrow> (None, w\<lparr>procs := (procs w)(p := Reaped)\<rparr>))"

definition ref_Remove :: "string \<Rightarrow> os_state \<Rightarrow> error option \<times> os_state" where
  "ref_Remove f w =
     (if f \<in> files w then (None, w\<lparr>files := files w - {f}\<rparr>)
      else (Some (ExternalError ''remove: no such file or directory''), w))"

definition ref_os :: "os_state os_calls" where
  "ref_os = \<lparr>Process_Kill = ref_Kill, Process_Wait = ref_Wait, os_Remove = ref_Remove\<rparr>"

text \<open>
  \<^verbatim>\<open>createLibvirtAuthFile\<close> creates a temporary file, writes the credentials, closes
  the file and restricts its permissions; after any failure past the creation it removes
  the file. A file is named by its path.
\<close>

definition authContent :: "string \<Rightarrow> string \<Rightarrow> string \<Rightarrow> string" where
  "authContent vcenterHost username password =
     ''[credentials-vcenter]'' @ [CHR 0x0A] @ ''username='' @ username @ [CHR 0x0A]
     @ ''password='' @ password @ [CHR 0x0A] @ [CHR 0x0A]
     @ ''[auth-esx-'' @ vcenterHost @ '']'' @ [CHR 0x0A] @ ''credentials=vcenter'' @ [CHR 0x0A]"

definition createLibvirtAuthFile ::
  "('w, 's) collaborators \<Rightarrow> string \<Rightarrow> string \<Rightarrow> string \<Rightarrow> 'w \<Rightarrow> (error + string) \<times> 'w" where
  "createLibvirtAuthFile env vcenterHost username password w =
     (case os_CreateTemp env w of
        (Inl err, w1) \<Rightarrow>
          (Inl (Errorf ''failed to create temporary auth file: %w'' [ArgError err]), w1)
      | (Inr tmpFile, w1) \<Rightarrow>
          (case File_WriteString env tmpFile (authContent vcenterHost username password) w1 of
             (Some err, w2) \<Rightarrow>
               (Inl (Errorf ''failed to write auth file: %w'' [ArgError err]),
                snd (os_Remove env tmpFile (snd (File_Close env tmpFile w2))))
           | (None, w2) \<Rightarrow>
               (case File_Close env tmpFile w2 of
                  (Some err, w3) \<Rightarrow>
                    (Inl (Errorf ''failed to close auth file: %w'' [ArgError err]),
                     snd (os_Remove env tmpFile w3))
                | (None, w3) \<Rightarrow>
                    (case os_Chmod env tmpFile w3 of
                       (Some err, w4) \<Rightarrow>
                         (Inl (Errorf ''failed to set auth file permissions: %w'' [ArgError err]),
                          snd (os_Remove env tmpFile w4))
                     | (None, w4) \<Rightarrow> (Inr tmpFile, w4)))))"

text \<open>
  \<^verbatim>\<open>OpenWithVirtV2V\<close>: the host of the vCenter URL, a non-empty datacenter, the auth
  file, then the start of \<^verbatim>\<open>virt-v2v-open\<close>; when the start fails the auth file is
  removed. On success the handle carries the fixed endpoint, the started command and the
  auth file.
\<close>

definition OpenWithVirtV2V ::
  "('w, 's) collaborators \<Rightarrow> string \<Rightarrow> string \<Rightarrow> string \<Rightarrow> string \<Rightarrow> string \<Rightarrow> string \<Rightarrow> 'w
   \<Rightarrow> (error + V2VSession) \<times> 'w" where
  "OpenWithVirtV2V env vmName datacenter snapshotName vcenterURL username password w =
     (case url_Hostname env vcenterURL of
        Inl err \<Rightarrow> (Inl (Errorf ''failed to parse vCenter URL: %w'' [ArgError err]), w)
      | Inr vcenterHost \<Rightarrow>
          (if datacenter = [] then (Inl (Errorf ''datacenter cannot be empty'' []), w)
           else
             (case createLibvirtAuthFile env vcenterHost username password w of
                (Inl err, w1) \<Rightarrow>
                  (Inl (Errorf ''failed to create libvirt auth file: %w'' [ArgError err]), w1)
              | (Inr authFile', w1) \<Rightarrow>
                  (let vpxURL = ''vpx://'' @ vcenterHost @ ''/'' @ datacenter @ ''/'' @ vmName
                         @ ''?snapshot='' @ snapshotName @ ''&no_verify=1'';
                       c = \<lparr>Path = ''virt-v2v-open'',
                            Args = [''-it'', ''vddk'', vpxURL, ''-o'', ''nbd''],
                            Env = os_Environ env w1 @ [''LIBVIRT_AUTH_FILE='' @ authFile'],
                            Process = None\<rparr>
                   in case Cmd_Start env c w1 of
                        (Inl err, w2) \<Rightarrow>
                          (Inl (Errorf ''failed to start virt-v2v-open: %w'' [ArgError err]),
                           snd (os_Remove env authFile' w2))
                      | (Inr pid, w2) \<Rightarrow>
                          (Inr \<lparr>NBDURL = ''nbd://localhost:10809'',
                                cmd = Some (c\<lparr>Process := Some pid\<rparr>),
                                authFile = authFile'\<rparr>, w2)))))"

subsection \<open>VirtInspector\<close>

record VirtInspector =
  virtInspectorPath :: string
  timeout :: int
  logger :: "Logger option"

definition NewVirtInspector :: "string \<Rightarrow> int \<Rightarrow> Logger option \<Rightarrow> VirtInspector" where
  "NewVirtInspector path t lg =
     \<lparr>virtInspectorPath = (if path = [] then ''virt-inspector'' else path),
      timeout = (if t = 0 then 5 * (60 * 1000000000) else t),
      logger = lg\<rparr>"

definition UseVirtV2VOpen :: bool where
  "UseVirtV2VOpen = False"

text \<open>
  \<^verbatim>\<open>parseInspectionXML\<close>: the decoded document, refused when it lists no operating
  system.
\<close>

definition parseInspectionXML ::
  "(string \<Rightarrow> error + VirtInspectorXML) \<Rightarrow> string \<Rightarrow> error + VirtInspectorXML" where
  "parseInspectionXML unmarshal xmlData =
     (case unmarshal xmlData of
        Inl err \<Rightarrow> Inl (Errorf ''XML parsing error: %w'' [ArgError err])
      | Inr xmlRoot \<Rightarrow>
          (if length (Operatingsystems xmlRoot) = 0
           then Inl (Errorf ''no operating systems found in inspection output'' [])
           else Inr xmlRoot))"

text \<open>
  Closing an NBDkit session, and the loop \<^verbatim>\<open>for _, session := range nbdkitSessions\<close>
  that closes them in order.
\<close>

definition close_session ::
  "('w, 's) collaborators \<Rightarrow> 's \<Rightarrow> ('w, 's) world \<Rightarrow> ('w, 's) world" where
  "close_session env s w =
     w\<lparr>ext := NBDKit_Close env s (ext w), closed := closed w @ [NBDKitSession s]\<rparr>"

definition close_sessions ::
  "('w, 's) collaborators \<Rightarrow> 's list \<Rightarrow> ('w, 's) world \<Rightarrow> ('w, 's) world" where
  "close_sessions env nbdkitSessions w = fold (close_session env) nbdkitSessions w"

text \<open>
  The loop of \<^verbatim>\<open>Inspect\<close> over \<^verbatim>\<open>diskInfo.BaseDiskPaths\<close> (lines 105 to 140), with
  the loop index, the remaining paths and the two slices built so far. \<open>opn\<close> is
  \<^verbatim>\<open>OpenWithNBDKitVDDK\<close> applied to everything but the disk path. A failed open closes
  the sessions of the slice and returns; a session that opened is appended to the slice
  before the wait for readiness, so a failed wait closes it with the others.
\<close>

fun start_sessions ::
  "('w, 's) collaborators \<Rightarrow> (string \<Rightarrow> 'w \<Rightarrow> (error + 's) \<times> 'w) \<Rightarrow> nat \<Rightarrow> string list
   \<Rightarrow> 's list \<Rightarrow> string list \<Rightarrow> ('w, 's) world
   \<Rightarrow> (error + 's list \<times> string list) \<times> ('w, 's) world" where
  "start_sessions env opn idx [] nbdkitSessions nbdURLs w = (Inr (nbdkitSessions, nbdURLs), w)"
| "start_sessions env opn idx (baseDiskPath # rest) nbdkitSessions nbdURLs w =
     (case opn baseDiskPath (ext w) of
        (Inl err, e1) \<Rightarrow>
          (Inl (Errorf ''failed to start NBDkit session for disk %d: %w''
                  [ArgInt (int idx), ArgError err]),
           close_sessions env nbdkitSessions
             (w\<lparr>ext := e1, attempts := attempts w @ [baseDiskPath]\<rparr>))
      | (Inr nbdkitSession, e1) \<Rightarrow>
          (let w1 = w\<lparr>ext := e1, attempts := attempts w @ [baseDiskPath],
                     opened := opened w @ [NBDKitSession nbdkitSession]\<rparr>;
               nbdkitSessions1 = nbdkitSessions @ [nbdkitSession];
               nbdURLs1 = nbdURLs @ [NBDKit_NBDURL env nbdkitSession]
           in case NBDKit_WaitForReady env nbdkitSession (30 * 1000000000) (ext w1) of
                (Some err, e2) \<Rightarrow>
                  (Inl (Errorf ''NBD server not ready for disk %d: %w''
                          [ArgInt (int idx), ArgError err]),
                   close_sessions env nbdkitSessions1
                     (w1\<lparr>ext := e2, waited := waited w1 @ [NBDKitSession nbdkitSession]\<rparr>))
              | (None, e2) \<Rightarrow>
                  start_sessions env opn (idx + 1) rest nbdkitSessions1 nbdURLs1
                    (w1\<lparr>ext := e2, waited := waited w1 @ [NBDKitSession nbdkitSession]\<rparr>)))"

text \<open>
  What the environment answers when the disks of a list are opened and awaited one after
  the other, each call on the outside state that the call before it left: the handles and
  the last state when every open and every wait succeeds, \<open>None\<close> otherwise. This is
  not part of the program: it says what "these disks open and become ready" means.
\<close>

fun sessions_come_up ::
  "('w, 's) collaborators \<Rightarrow> (string \<Rightarrow> 'w \<Rightarrow> (error + 's) \<times> 'w) \<Rightarrow> string list \<Rightarrow> 'w
   \<Rightarrow> ('s list \<times> 'w) option" where
  "sessions_come_up env opn [] e = Some ([], e)"
| "sessions_come_up env opn (p # ps) e =
     (case opn p e of
        (Inl _, e1) \<Rightarrow> None
      | (Inr s, e1) \<Rightarrow>
          (case NBDKit_WaitForReady env s (30 * 1000000000) e1 of
             (Some _, e2) \<Rightarrow> None
           | (None, e2) \<Rightarrow>
               (case sessions_come_up env opn ps e2 of
                  None \<Rightarrow> None
                | Some (ss, e3) \<Rightarrow> Some (s # ss, e3))))"

text \<open>
  The rest of \<^verbatim>\<open>Inspect\<close> (lines 151 to 209): the command line with one
  \<^verbatim>\<open>--format=raw -a '<url>'\<close> per endpoint, the run of the command, and the parse of its
  output.
\<close>

definition aOptions :: "string list \<Rightarrow> string" where
  "aOptions nbdURLs =
     concat (map (\<lambda>url. '' --format=raw -a '' @ [CHR 0x27] @ url @ [CHR 0x27]) nbdURLs)"

definition run_virt_inspector ::
  "('w, 's) collaborators \<Rightarrow> VirtInspector \<Rightarrow> string list \<Rightarrow> ('w, 's) world
   \<Rightarrow> (VirtInspectorXML option \<times> error option) \<times> ('w, 's) world" where
  "run_virt_inspector env i nbdURLs w =
     (let cmdString = ''unset LD_LIBRARY_PATH && '' @ virtInspectorPath i @ aOptions nbdURLs
      in case CombinedOutput env cmdString (ext w) of
           ((outputStr, oerr), e1) \<Rightarrow>
             (let w1 = w\<lparr>ext := e1, tool_runs := tool_runs w @ [cmdString]\<rparr>
              in case oerr of
                   Some err \<Rightarrow>
                     (let exitCode = (case err of ExitError c \<Rightarrow> c | _ \<Rightarrow> - 1)
                      in if outputStr \<noteq> []
                         then ((None, Some (Errorf (''virt-inspector failed (exit code %d): %w''
                                   @ [CHR 0x0A] @ ''Output: %s'')
                                   [ArgInt exitCode, ArgError err, ArgString outputStr])), w1)
                         else ((None, Some (Errorf ''virt-inspector failed (exit code %d): %w''
                                   [ArgInt exitCode, ArgError err])), w1))
                 | None \<Rightarrow>
                     (case parseInspectionXML (xml_Unmarshal env) outputStr of
                        Inl err \<Rightarrow>
                          ((None, Some (Errorf ''failed to parse inspection output: %w''
                                   [ArgError err])), w1)
                      | Inr inspectionData \<Rightarrow> ((Some inspectionData, None), w1))))"

text \<open>
  \<^verbatim>\<open>VirtInspector.Inspect\<close>. Both branches start with a call of a method of
  \<^verbatim>\<open>i.logger\<close>, which dereferences it, and the per-disk branch reads the fields of
  \<^verbatim>\<open>diskInfo\<close>: a nil pointer there is a panic, before any session is opened. The early
  returns of the per-disk loop come before \<^verbatim>\<open>defer sessionCloser()\<close>; past it, the
  closer runs after the result is computed, on every path. Contexts, their timeouts and
  the sleep are not modelled: they hold no state of the program.
\<close>

definition Inspect ::
  "('w, 's) collaborators \<Rightarrow> VirtInspector \<Rightarrow> string \<Rightarrow> string \<Rightarrow> string \<Rightarrow> string \<Rightarrow> string
   \<Rightarrow> string \<Rightarrow> SnapshotDiskInfo option \<Rightarrow> ('w, 's) world
   \<Rightarrow> ((VirtInspectorXML option \<times> error option) \<times> ('w, 's) world) outcome" where
  "Inspect env i vmName snapshotName vcenterURL datacenter username password diskInfo w =
     (if UseVirtV2VOpen then
        (case logger i of
           None \<Rightarrow> Panics
         | Some _ \<Rightarrow>
             (case OpenWithVirtV2V env vmName datacenter snapshotName vcenterURL username
                     password (ext w) of
                (Inl err, e1) \<Rightarrow> Returns ((None, Some err), w\<lparr>ext := e1\<rparr>)
              | (Inr v2vSession, e1) \<Rightarrow>
                  (let w1 = w\<lparr>ext := e1, opened := opened w @ [V2V v2vSession]\<rparr>
                   in case run_virt_inspector env i [NBDURL v2vSession] w1 of
                        (r, w2) \<Rightarrow>
                          (case V2VSession_Close env (Some v2vSession) (ext w2) of
                             Returns e3 \<Rightarrow>
                               Returns (r, w2\<lparr>ext := e3,
                                              closed := closed w2 @ [V2V v2vSession]\<rparr>)
                           | Panics \<Rightarrow> Panics
                           | Blocks \<Rightarrow> Blocks))))
      else
        (case logger i of
           None \<Rightarrow> Panics
         | Some _ \<Rightarrow>
             (case diskInfo of
                None \<Rightarrow> Panics
              | Some di \<Rightarrow>
                  (case start_sessions env
                          (\<lambda>baseDiskPath. OpenWithNBDKitVDDK env (VMMoref di) (SnapshotMoref di)
                             baseDiskPath vcenterURL username password)
                          0 (BaseDiskPaths di) [] [] w of
                     (Inl err, w1) \<Rightarrow> Returns ((None, Some err), w1)
                   | (Inr (nbdkitSessions, nbdURLs), w1) \<Rightarrow>
                       (case run_virt_inspector env i nbdURLs w1 of
                          (r, w2) \<Rightarrow> Returns (r, close_sessions env nbdkitSessions w2))))))"

section \<open>The inflight tracker\<close>

text \<open>
  \<^verbatim>\<open>inflightCall\<close> holds a wait group, here its counter, and the result of the
  computation. The type parameter is instantiated with pointer types only, so the zero
  value of \<^verbatim>\<open>val\<close> is \<^verbatim>\<open>nil\<close>. \<^verbatim>\<open>inflightTracker.calls\<close> maps the string form of
  a key to a pointer to such a record: \<open>cells\<close> is the store of the records by address,
  and \<open>fresh\<close> the next address to allocate. The mutex is not a field: each critical
  section is one function below.
\<close>

record 'v inflightCall =
  wg :: nat
  val :: "'v option"
  err :: "error option"

record 'v inflightTracker =
  calls :: "string \<rightharpoonup> nat"
  cells :: "nat \<Rightarrow> 'v inflightCall"
  fresh :: nat

definition newInflightTracker :: "'v inflightTracker" where
  "newInflightTracker =
     \<lparr>calls = Map.empty, cells = (\<lambda>_. \<lparr>wg = 0, val = None, err = None\<rparr>), fresh = 0\<rparr>"

text \<open>
  The statements of \<^verbatim>\<open>do\<close> that touch the tracker:
  \<^verbatim>\<open>call := &inflightCall[T]{}; call.wg.Add(1); t.calls[keyStr] = call\<close>,
  \<^verbatim>\<open>call.val, call.err = ...\<close>, \<^verbatim>\<open>call.wg.Done()\<close> (which panics on a counter that is
  zero; its callers check) and \<^verbatim>\<open>delete(t.calls, keyStr)\<close>.
\<close>

definition register_call :: "string \<Rightarrow> 'v inflightTracker \<Rightarrow> nat \<times> 'v inflightTracker" where
  "register_call keyStr t =
     (fresh t,
      t\<lparr>cells := (cells t)(fresh t := \<lparr>wg = 1, val = None, err = None\<rparr>),
        calls := (calls t)(keyStr \<mapsto> fresh t),
        fresh := fresh t + 1\<rparr>)"

definition store_result ::
  "nat \<Rightarrow> 'v option \<Rightarrow> error option \<Rightarrow> 'v inflightTracker \<Rightarrow> 'v inflightTracker" where
  "store_result c v e t = t\<lparr>cells := (cells t)(c := (cells t c)\<lparr>val := v, err := e\<rparr>)\<rparr>"

definition wg_Done :: "nat \<Rightarrow> 'v inflightTracker \<Rightarrow> 'v inflightTracker" where
  "wg_Done c t = t\<lparr>cells := (cells t)(c := (cells t c)\<lparr>wg := wg (cells t c) - 1\<rparr>)\<rparr>"

definition delete_call :: "string \<Rightarrow> 'v inflightTracker \<Rightarrow> 'v inflightTracker" where
  "delete_call keyStr t = t\<lparr>calls := (calls t)(keyStr := None)\<rparr>"

text \<open>
  \<^verbatim>\<open>inflightTracker.do\<close> as one goroutine runs it while no other goroutine takes a
  step. The work function \<open>fn\<close> acts on a state \<open>'st\<close> that does not include the tracker.
  When the key has a record, the caller waits on its wait group: the wait returns at once
  if the counter is zero and never otherwise, since nobody else runs.
\<close>

definition do ::
  "'v inflightTracker \<Rightarrow> CacheKey \<Rightarrow> ('st \<Rightarrow> (('v option \<times> error option) \<times> 'st) outcome) \<Rightarrow> 'st
   \<Rightarrow> (('v option \<times> error option \<times> bool) \<times> 'v inflightTracker \<times> 'st) outcome" where
  "do t key fn st =
     (let keyStr = String key
      in case calls t keyStr of
           Some c \<Rightarrow>
             (if wg (cells t c) = 0
              then Returns ((val (cells t c), err (cells t c), True), t, st)
              else Blocks)
         | None \<Rightarrow>
             (case register_call keyStr t of
                (c, t1) \<Rightarrow>
                  (case fn st of
                     Panics \<Rightarrow> Panics
                   | Blocks \<Rightarrow> Blocks
                   | Returns ((v, e), st1) \<Rightarrow>
                       (let t2 = store_result c v e t1
                        in if wg (cells t2 c) = 0 then Panics
                           else (let t3 = wg_Done c t2;
                                     t4 = delete_call keyStr t3
                                 in Returns ((val (cells t4 c), err (cells t4 c), False),
                                             t4, st1))))))"

subsection \<open>Goroutines calling the tracker concurrently\<close>

text \<open>
  Each caller of \<^verbatim>\<open>do\<close> is at one of these points. The statements between two points
  are one atomic step: a critical section of the tracker's mutex, or an access to the
  record the caller holds. \<open>AtLock\<close>: \<^verbatim>\<open>keyStr\<close> is computed, the lock not yet taken.
  \<open>AtWait\<close>: the key had a record; before \<^verbatim>\<open>call.wg.Wait()\<close>. \<open>AtWaiterReturn\<close>: the
  wait is over; before \<^verbatim>\<open>return call.val, call.err, true\<close>. \<open>AtFn\<close>: the caller has
  registered a record; before \<^verbatim>\<open>fn()\<close>. \<open>AtDone\<close>: the result is stored; before
  \<^verbatim>\<open>call.wg.Done()\<close>. \<open>AtDelete\<close>: before the critical section that deletes the key.
  \<open>AtReturn\<close>: before \<^verbatim>\<open>return call.val, call.err, false\<close>. \<open>Returned\<close> keeps what the
  call returned, and the record it came from. \<open>Panicked\<close>: the work function panicked (or
  the wait group's counter was zero at \<^verbatim>\<open>Done\<close>), and the record stays registered.
\<close>

datatype 'v frame =
    Idle
  | AtLock string
  | AtWait nat
  | AtWaiterReturn nat
  | AtFn string nat
  | AtDone string nat
  | AtDelete string nat
  | AtReturn nat
  | Returned nat "'v option" "error option" bool
  | Panicked string nat

text \<open>
  The scheduler's choices: caller \<open>i\<close> calls \<^verbatim>\<open>do\<close> with a key; caller \<open>i\<close> takes its
  next step; the work function of caller \<open>i\<close> returns a value and an error, or panics.
  \<open>runs\<close> lists the executions of the work function, each with its caller and record.
\<close>

datatype 'v action =
    Call nat CacheKey
  | Step nat
  | FnReturns nat "'v option" "error option"
  | FnPanics nat

record 'v system =
  tracker :: "'v inflightTracker"
  frames :: "nat \<Rightarrow> 'v frame"
  runs :: "(nat \<times> nat) list"

definition start :: "'v system" where
  "start = \<lparr>tracker = newInflightTracker, frames = (\<lambda>_. Idle), runs = []\<rparr>"

text \<open>
  One step of the system. An action that its caller cannot take now (a wait on a counter
  that is not zero, a step of a caller that has returned) leaves the state as it is.
\<close>

fun step :: "'v action \<Rightarrow> 'v system \<Rightarrow> 'v system" where
  "step (Call i key) s =
     (case frames s i of
        Idle \<Rightarrow> s\<lparr>frames := (frames s)(i := AtLock (String key))\<rparr>
      | _ \<Rightarrow> s)"
| "step (FnReturns i v e) s =
     (case frames s i of
        AtFn keyStr c \<Rightarrow>
          s\<lparr>tracker := store_result c v e (tracker s),
            frames := (frames s)(i := AtDone keyStr c),
            runs := runs s @ [(i, c)]\<rparr>
      | _ \<Rightarrow> s)"
| "step (FnPanics i) s =
     (case frames s i of
        AtFn keyStr c \<Rightarrow>
          s\<lparr>frames := (frames s)(i := Panicked keyStr c), runs := runs s @ [(i, c)]\<rparr>
      | _ \<Rightarrow> s)"
| "step (Step i) s =
     (case frames s i of
        AtLock keyStr \<Rightarrow>
          (case calls (tracker s) keyStr of
             Some c \<Rightarrow> s\<lparr>frames := (frames s)(i := AtWait c)\<rparr>
           | None \<Rightarrow>
               (case register_call keyStr (tracker s) of
                  (c, t1) \<Rightarrow> s\<lparr>tracker := t1, frames := (frames s)(i := AtFn keyStr c)\<rparr>))
      | AtWait c \<Rightarrow>
          (if wg (cells (tracker s) c) = 0
           then s\<lparr>frames := (frames s)(i := AtWaiterReturn c)\<rparr>
           else s)
      | AtWaiterReturn c \<Rightarrow>
          s\<lparr>frames := (frames s)(i := Returned c (val (cells (tracker s) c))
                                      (err (cells (tracker s) c)) True)\<rparr>
      | AtDone keyStr c \<Rightarrow>
          (if wg (cells (tracker s) c) = 0
           then s\<lparr>frames := (frames s)(i := Panicked keyStr c)\<rparr>
           else s\<lparr>tracker := wg_Done c (tracker s),
                  frames := (frames s)(i := AtDelete keyStr c)\<rparr>)
      | AtDelete keyStr c \<Rightarrow>
          s\<lparr>tracker := delete_call keyStr (tracker s), frames := (frames s)(i := AtReturn c)\<rparr>
      | AtReturn c \<Rightarrow>
          s\<lparr>frames := (frames s)(i := Returned c (val (cells (tracker s) c))
                                      (err (cells (tracker s) c)) False)\<rparr>
      | _ \<Rightarrow> s)"

definition exec :: "'v action list \<Rightarrow> 'v system \<Rightarrow> 'v system" where
  "exec as s = fold step as s"

section \<open>The Inspector\<close>

text \<open>
  The database is an interface the caller implements: its two methods for
  \<^verbatim>\<open>VirtInspectorXML\<close> act on the outside state. \<^verbatim>\<open>Inspector\<close> has the fields of the
  source but those of the \<^verbatim>\<open>virt-v2v-inspector\<close> variant, whose inspector
  (\<^verbatim>\<open>internal/inspection/virt_v2v_inspector.go\<close>) is not among the sources.
\<close>

record 'w DB =
  GetVirtInspectorXML :: "CacheKey \<Rightarrow> 'w \<Rightarrow> (VirtInspectorXML option \<times> error option) \<times> 'w"
  SetVirtInspectorXML :: "CacheKey \<Rightarrow> VirtInspectorXML option \<Rightarrow> 'w \<Rightarrow> error option \<times> 'w"

record Credentials =
  VCenterURL :: string
  Username :: string
  Password :: string

record 'w Inspector =
  virtInspector :: VirtInspector
  db :: "'w DB option"
  credentials :: Credentials
  virtMemoryCache :: "VirtInspectorXML memoryCache"
  virtInflight :: "VirtInspectorXML inflightTracker"
  logger :: "Logger option"

definition NewInspector ::
  "string \<Rightarrow> string \<Rightarrow> int \<Rightarrow> Credentials \<Rightarrow> Logger option \<Rightarrow> 'w DB option \<Rightarrow> 'w Inspector" where
  "NewInspector virtPath virtV2vPath t creds lg d =
     \<lparr>virtInspector = NewVirtInspector virtPath t lg,
      db = d,
      credentials = creds,
      virtMemoryCache = newMemoryCache,
      virtInflight = newInflightTracker,
      logger = lg\<rparr>"

text \<open>
  The last part of the work function of \<^verbatim>\<open>InspectWithVirt\<close> (lines 152 to 178): the
  inspection; on an error, that error and nothing else; otherwise the result goes into
  the memory cache and, when there is a database, into the database, whose error is
  logged and dropped.
\<close>

definition perform_inspection ::
  "('w, 's) collaborators \<Rightarrow> 'w Inspector \<Rightarrow> CacheKey \<Rightarrow> string \<Rightarrow> string \<Rightarrow> string
   \<Rightarrow> SnapshotDiskInfo option \<Rightarrow> VirtInspectorXML memoryCache \<Rightarrow> ('w, 's) world
   \<Rightarrow> ((VirtInspectorXML option \<times> error option)
        \<times> VirtInspectorXML memoryCache \<times> ('w, 's) world) outcome" where
  "perform_inspection env p key vmName snapshotName datacenter diskInfo cache w =
     (case Inspect env (virtInspector p) vmName snapshotName (VCenterURL (credentials p))
             datacenter (Username (credentials p)) (Password (credentials p)) diskInfo w of
        Panics \<Rightarrow> Panics
      | Blocks \<Rightarrow> Blocks
      | Returns ((result, ierr), w1) \<Rightarrow>
          (case ierr of
             Some e \<Rightarrow> Returns ((None, Some e), cache, w1)
           | None \<Rightarrow>
               (let cache1 = cache_set cache key result;
                    w2 = (case db p of
                            None \<Rightarrow> w1
                          | Some d \<Rightarrow>
                              (case SetVirtInspectorXML d key result (ext w1) of
                                 (serr, e2) \<Rightarrow>
                                   w1\<lparr>ext := e2, db_sets := db_sets w1 @ [(key, result)]\<rparr>))
                in Returns ((result, None), cache1, w2))))"

text \<open>
  The work function that \<^verbatim>\<open>InspectWithVirt\<close> hands to the tracker (lines 120 to 179):
  the memory cache again, then the database when there is one (an error of the read is
  logged and the read counts as a miss), then the inspection.
\<close>

definition InspectWithVirt_fn ::
  "('w, 's) collaborators \<Rightarrow> 'w Inspector \<Rightarrow> CacheKey \<Rightarrow> string \<Rightarrow> string \<Rightarrow> string
   \<Rightarrow> SnapshotDiskInfo option \<Rightarrow> VirtInspectorXML memoryCache \<times> ('w, 's) world
   \<Rightarrow> ((VirtInspectorXML option \<times> error option)
        \<times> VirtInspectorXML memoryCache \<times> ('w, 's) world) outcome" where
  "InspectWithVirt_fn env p key vmName snapshotName datacenter diskInfo st =
     (case st of
        (cache, w) \<Rightarrow>
          (case cache_get cache key of
             Some cached \<Rightarrow> Returns ((Some cached, None), cache, w)
           | None \<Rightarrow>
               (case db p of
                  None \<Rightarrow>
                    perform_inspection env p key vmName snapshotName datacenter diskInfo cache w
                | Some d \<Rightarrow>
                    (case GetVirtInspectorXML d key (ext w) of
                       ((cached, gerr), e1) \<Rightarrow>
                         (let w1 = w\<lparr>ext := e1, db_gets := db_gets w @ [key]\<rparr>
                          in case gerr of
                               Some e \<Rightarrow>
                                 perform_inspection env p key vmName snapshotName datacenter
                                   diskInfo cache w1
                             | None \<Rightarrow>
                                 (case cached of
                                    Some x \<Rightarrow>
                                      Returns ((Some x, None),
                                               cache_set cache key (Some x), w1)
                                  | None \<Rightarrow>
                                      perform_inspection env p key vmName snapshotName
                                        datacenter diskInfo cache w1))))))"

text \<open>
  \<^verbatim>\<open>Inspector.InspectWithVirt\<close>: the memory cache first; on a miss, the tracker with
  the work function. The call returns the result and the error of the tracker, with the
  inspector's cache and tracker as the call left them.
\<close>

definition InspectWithVirt ::
  "('w, 's) collaborators \<Rightarrow> 'w Inspector \<Rightarrow> string \<Rightarrow> string \<Rightarrow> string
   \<Rightarrow> SnapshotDiskInfo option \<Rightarrow> ('w, 's) world
   \<Rightarrow> ((VirtInspectorXML option \<times> error option) \<times> 'w Inspector \<times> ('w, 's) world) outcome" where
  "InspectWithVirt env p vmName snapshotName datacenter diskInfo w =
     (let key = \<lparr>VMName = vmName, SnapshotName = snapshotName\<rparr>
      in case cache_get (virtMemoryCache p) key of
           Some cached \<Rightarrow> Returns ((Some cached, None), p, w)
         | None \<Rightarrow>
             (case do (virtInflight p) key
                     (InspectWithVirt_fn env p key vmName snapshotName datacenter diskInfo)
                     (virtMemoryCache p, w) of
                Panics \<Rightarrow> Panics
              | Blocks \<Rightarrow> Blocks
              | Returns ((result, e, isWaiter), t1, cache1, w1) \<Rightarrow>
                  Returns ((result, e), p\<lparr>virtInflight := t1, virtMemoryCache := cache1\<rparr>, w1)))"

section \<open>A test environment\<close>

text \<open>
  Collaborators for concrete runs. The outside state is the list of running NBDkit
  sessions; a session handle is the disk path it serves. Opening the empty path fails, the
  session of the disk \<open>slow\<close> never becomes ready, and the inspection command prints a
  document with one operating system.
\<close>

definition test_os :: VirtInspectorOS where
  "test_os = \<lparr>Name = ''linux'', Distro = ''rhel'', MajorVersion = ''9'', MinorVersion = ''4'',
     Architecture = ''x86_64'', Hostname = ''vm1'', Product = ''RHEL'', Root = ''/dev/sda2'',
     PackageFormat = ''rpm'', PackageManagement = ''dnf'', OSInfo = ''rhel9.4'',
     Applications = [], Filesystems = [],
     Mountpoints = [\<lparr>Device = ''/dev/sda2'', MountPoint = ''/''\<rparr>], Drives = []\<rparr>"

definition test_env :: "(string list, string) collaborators" where
  "test_env =
     \<lparr>Process_Kill = (\<lambda>p w. (None, w)),
      Process_Wait = (\<lambda>p w. (None, w)),
      os_Remove = (\<lambda>f w. (None, w)),
      OpenWithNBDKitVDDK = (\<lambda>vmMoref snapshotMoref diskPath vcenterURL username password w.
         if diskPath = [] then (Inl (ExternalError ''no such disk''), w)
         else (Inr diskPath, diskPath # w)),
      NBDKit_NBDURL = (\<lambda>s. ''nbd://localhost/'' @ s),
      NBDKit_WaitForReady = (\<lambda>s t w.
         if s = ''slow'' then (Some (ExternalError ''timeout''), w) else (None, w)),
      NBDKit_Close = (\<lambda>s w. remove1 s w),
      CombinedOutput = (\<lambda>c w. ((''<operatingsystems/>'', None), w)),
      Cmd_Start = (\<lambda>c w. (Inr 1, w)),
      os_CreateTemp = (\<lambda>w. (Inr ''/tmp/libvirt-auth-1.conf'', w)),
      File_WriteString = (\<lambda>f c w. (None, w)),
      File_Close = (\<lambda>f w. (None, w)),
      os_Chmod = (\<lambda>f w. (None, w)),
      os_Environ = (\<lambda>w. []),
      url_Hostname = (\<lambda>u. Inr u),
      xml_Unmarshal = (\<lambda>out. Inr \<lparr>Operatingsystems = [test_os]\<rparr>)\<rparr>"

definition test_disks :: "string list \<Rightarrow> SnapshotDiskInfo" where
  "test_disks ps = \<lparr>VMMoref = ''vm-1'', SnapshotMoref = ''snapshot-1'', DiskPaths = ps,
     BaseDiskPaths = ps, ComputeResourcePath = ''/dc/host''\<rparr>"

section \<open>Properties of cache keys\<close>

text \<open>
  C10. The string form of a cache key is not injective. The keys
  \<open>{VMName = "a:b", SnapshotName = "c"}\<close> and \<open>{VMName = "a", SnapshotName = "b:c"}\<close>
  differ, yet both have the string form \<open>"a:b:c"\<close>; so they have the same hash whatever
  the digest function is, and a value stored in the memory cache under the first key is
  what a lookup of the second key returns.
\<close>

theorem CacheKey_String_not_injective:
  "\<lparr>VMName = ''a:b'', SnapshotName = ''c''\<rparr> \<noteq> \<lparr>VMName = ''a'', SnapshotName = ''b:c''\<rparr>
   \<and> String \<lparr>VMName = ''a:b'', SnapshotName = ''c''\<rparr> = ''a:b:c''
   \<and> String \<lparr>VMName = ''a'', SnapshotName = ''b:c''\<rparr> = ''a:b:c''
   \<and> Hash h \<lparr>VMName = ''a:b'', SnapshotName = ''c''\<rparr>
       = Hash h \<lparr>VMName = ''a'', SnapshotName = ''b:c''\<rparr>
   \<and> cache_get (cache_set c \<lparr>VMName = ''a:b'', SnapshotName = ''c''\<rparr> (Some v))
         \<lparr>VMName = ''a'', SnapshotName = ''b:c''\<rparr> = Some v"
  by (simp add: String_def Hash_def cache_get_def cache_set_def)

section \<open>Properties of sessions\<close>

lemma close_sessions_closed:
  "closed (close_sessions env ss w) = closed w @ map NBDKitSession ss"
  by (induction ss arbitrary: w) (simp_all add: close_sessions_def close_session_def)

lemma close_sessions_ghost:
  "opened (close_sessions env ss w) = opened w"
  "attempts (close_sessions env ss w) = attempts w"
  "waited (close_sessions env ss w) = waited w"
  "tool_runs (close_sessions env ss w) = tool_runs w"
  "db_gets (close_sessions env ss w) = db_gets w"
  "db_sets (close_sessions env ss w) = db_sets w"
  by (induction ss arbitrary: w; simp add: close_sessions_def close_session_def)+

lemma start_sessions_Inr:
  "start_sessions env opn idx ps ss us w = (Inr (ss', us'), w') \<Longrightarrow>
   \<exists>new. length new = length ps \<and> ss' = ss @ new \<and> us' = us @ map (NBDKit_NBDURL env) new
     \<and> opened w' = opened w @ map NBDKitSession new
     \<and> waited w' = waited w @ map NBDKitSession new
     \<and> closed w' = closed w \<and> attempts w' = attempts w @ ps
     \<and> tool_runs w' = tool_runs w \<and> db_gets w' = db_gets w \<and> db_sets w' = db_sets w"
proof (induction ps arbitrary: idx ss us w)
  case Nil
  then show ?case by simp
next
  case (Cons p ps)
  obtain r e1 where op: "opn p (ext w) = (r, e1)" by force
  show ?case
  proof (cases r)
    case (Inl err)
    with Cons.prems op show ?thesis by simp
  next
    case (Inr s)
    define w1 where "w1 = w\<lparr>ext := e1, attempts := attempts w @ [p],
                     opened := opened w @ [NBDKitSession s]\<rparr>"
    obtain oe e2 where wt: "NBDKit_WaitForReady env s (30 * 1000000000) (ext w1) = (oe, e2)"
      by force
    show ?thesis
    proof (cases oe)
      case (Some err)
      with Cons.prems op Inr wt show ?thesis by (simp add: w1_def Let_def)
    next
      case None
      define w2 where "w2 = w1\<lparr>ext := e2, waited := waited w1 @ [NBDKitSession s]\<rparr>"
      have rec: "start_sessions env opn (idx + 1) ps (ss @ [s]) (us @ [NBDKit_NBDURL env s]) w2
                 = (Inr (ss', us'), w')"
        using Cons.prems op Inr wt None by (simp add: w1_def w2_def Let_def)
      from Cons.IH[OF rec] obtain new where
        "length new = length ps" "ss' = (ss @ [s]) @ new"
        "us' = (us @ [NBDKit_NBDURL env s]) @ map (NBDKit_NBDURL env) new"
        "opened w' = opened w2 @ map NBDKitSession new"
        "waited w' = waited w2 @ map NBDKitSession new"
        "closed w' = closed w2" "attempts w' = attempts w2 @ ps"
        "tool_runs w' = tool_runs w2" "db_gets w' = db_gets w2" "db_sets w' = db_sets w2"
        by auto
      then show ?thesis
        by (intro exI[of _ "s # new"]) (simp add: w2_def w1_def)
    qed
  qed
qed

lemma start_sessions_Inl:
  "start_sessions env opn idx ps ss us w = (Inl e, w') \<Longrightarrow>
   \<exists>k new err. k < length ps \<and> attempts w' = attempts w @ take (Suc k) ps
     \<and> opened w' = opened w @ map NBDKitSession new
     \<and> closed w' = closed w @ map NBDKitSession (ss @ new)
     \<and> waited w' = waited w @ map NBDKitSession new
     \<and> (e = Errorf ''failed to start NBDkit session for disk %d: %w''
               [ArgInt (int (idx + k)), ArgError err] \<and> length new = k
        \<or> e = Errorf ''NBD server not ready for disk %d: %w''
               [ArgInt (int (idx + k)), ArgError err] \<and> length new = Suc k)
     \<and> tool_runs w' = tool_runs w \<and> db_gets w' = db_gets w \<and> db_sets w' = db_sets w"
proof (induction ps arbitrary: idx ss us w)
  case Nil
  then show ?case by simp
next
  case (Cons p ps)
  obtain r e1 where op: "opn p (ext w) = (r, e1)" by force
  show ?case
  proof (cases r)
    case (Inl err)
    with Cons.prems op have
      "e = Errorf ''failed to start NBDkit session for disk %d: %w'' [ArgInt (int idx), ArgError err]"
      "w' = close_sessions env ss (w\<lparr>ext := e1, attempts := attempts w @ [p]\<rparr>)"
      by simp_all
    then show ?thesis
      by (intro exI[of _ 0] exI[of _ "[]"] exI[of _ err])
         (simp add: close_sessions_closed close_sessions_ghost)
  next
    case (Inr s)
    define w1 where "w1 = w\<lparr>ext := e1, attempts := attempts w @ [p],
                     opened := opened w @ [NBDKitSession s]\<rparr>"
    obtain oe e2 where wt: "NBDKit_WaitForReady env s (30 * 1000000000) (ext w1) = (oe, e2)"
      by force
    define w2 where "w2 = w1\<lparr>ext := e2, waited := waited w1 @ [NBDKitSession s]\<rparr>"
    show ?thesis
    proof (cases oe)
      case (Some err)
      with Cons.prems op Inr wt have
        "e = Errorf ''NBD server not ready for disk %d: %w'' [ArgInt (int idx), ArgError err]"
        "w' = close_sessions env (ss @ [s]) w2"
        by (simp_all add: w1_def w2_def Let_def)
      then show ?thesis
        by (intro exI[of _ 0] exI[of _ "[s]"] exI[of _ err])
           (simp add: close_sessions_closed close_sessions_ghost w1_def w2_def)
    next
      case None
      have rec: "start_sessions env opn (idx + 1) ps (ss @ [s]) (us @ [NBDKit_NBDURL env s]) w2
                 = (Inl e, w')"
        using Cons.prems op Inr wt None by (simp add: w1_def w2_def Let_def)
      from Cons.IH[OF rec] obtain k new err where
        "k < length ps" "attempts w' = attempts w2 @ take (Suc k) ps"
        "opened w' = opened w2 @ map NBDKitSession new"
        "closed w' = closed w2 @ map NBDKitSession ((ss @ [s]) @ new)"
        "waited w' = waited w2 @ map NBDKitSession new"
        "e = Errorf ''failed to start NBDkit session for disk %d: %w''
               [ArgInt (int (idx + 1 + k)), ArgError err] \<and> length new = k
         \<or> e = Errorf ''NBD server not ready for disk %d: %w''
               [ArgInt (int (idx + 1 + k)), ArgError err] \<and> length new = Suc k"
        "tool_runs w' = tool_runs w2" "db_gets w' = db_gets w2" "db_sets w' = db_sets w2"
        by blast
      then show ?thesis
        by (intro exI[of _ "Suc k"] exI[of _ "s # new"] exI[of _ err])
           (auto simp add: w2_def w1_def)
    qed
  qed
qed


lemma run_virt_inspector_ghost:
  "run_virt_inspector env i us w = (r, w') \<Longrightarrow>
   opened w' = opened w \<and> closed w' = closed w \<and> attempts w' = attempts w
   \<and> waited w' = waited w \<and> db_gets w' = db_gets w \<and> db_sets w' = db_sets w
   \<and> tool_runs w' = tool_runs w @ [''unset LD_LIBRARY_PATH && '' @ virtInspectorPath i @ aOptions us]"
  by (auto simp: run_virt_inspector_def Let_def split: prod.splits option.splits sum.splits if_splits)

lemma run_virt_inspector_result:
  "run_virt_inspector env i us w = ((r, None), w') \<Longrightarrow> \<exists>x. r = Some x \<and> Operatingsystems x \<noteq> []"
  by (auto simp: run_virt_inspector_def parseInspectionXML_def Let_def
           split: prod.splits option.splits sum.splits if_splits)

lemma run_virt_inspector_error:
  "run_virt_inspector env i us w = ((r, Some e), w') \<Longrightarrow> r = None"
  by (auto simp: run_virt_inspector_def parseInspectionXML_def Let_def
           split: prod.splits option.splits sum.splits if_splits)

lemma V2VSession_Close_Returns: "\<exists>w1. V2VSession_Close sys s w = Returns w1"
  by (simp add: V2VSession_Close_def Let_def split: option.splits)

lemma V2VSession_Close_total [simp]:
  "V2VSession_Close sys s w \<noteq> Panics" "V2VSession_Close sys s w \<noteq> Blocks"
  by (simp_all add: V2VSession_Close_def Let_def split: option.splits)

lemma close_sessions_eq:
  "close_sessions env ss w
   = w\<lparr>ext := fold (NBDKit_Close env) ss (ext w), closed := closed w @ map NBDKitSession ss\<rparr>"
  by (induction ss arbitrary: w) (simp_all add: close_sessions_def close_session_def)

lemma start_sessions_prefix:
  "sessions_come_up env opn ps (ext w) = Some (new, e1) \<Longrightarrow>
   start_sessions env opn idx (ps @ rest) ss us w
   = start_sessions env opn (idx + length ps) rest (ss @ new)
       (us @ map (NBDKit_NBDURL env) new)
       (w\<lparr>ext := e1, attempts := attempts w @ ps,
          opened := opened w @ map NBDKitSession new,
          waited := waited w @ map NBDKitSession new\<rparr>)"
proof (induction ps arbitrary: idx ss us w new)
  case Nil
  then show ?case by auto
next
  case (Cons p ps)
  from Cons.prems obtain s a b new' where
    op: "opn p (ext w) = (Inr s, a)" and
    wt: "NBDKit_WaitForReady env s (30 * 1000000000) a = (None, b)" and
    rest: "sessions_come_up env opn ps b = Some (new', e1)" and new: "new = s # new'"
    by (auto split: prod.splits sum.splits option.splits)
  define w2 where "w2 = w\<lparr>ext := b, attempts := attempts w @ [p],
      opened := opened w @ [NBDKitSession s], waited := waited w @ [NBDKitSession s]\<rparr>"
  have w2: "w\<lparr>ext := a, attempts := attempts w @ [p],
      opened := opened w @ [NBDKitSession s], ext := b,
      waited := waited w @ [NBDKitSession s]\<rparr> = w2"
    unfolding w2_def by (rule world.equality) simp_all
  have step1: "start_sessions env opn idx ((p # ps) @ rest) ss us w
      = start_sessions env opn (idx + 1) (ps @ rest) (ss @ [s]) (us @ [NBDKit_NBDURL env s]) w2"
    using op wt w2 by (simp add: Let_def)
  have "sessions_come_up env opn ps (ext w2) = Some (new', e1)"
    using rest by (simp add: w2_def)
  from Cons.IH[OF this, of "idx + 1" "ss @ [s]" "us @ [NBDKit_NBDURL env s]"] step1 new
  show ?case by (simp add: w2_def)
qed

text \<open>
  C5. In the per-disk mode, suppose the disks below index \<open>k\<close> open and become ready, in
  disk order, giving the sessions \<open>ss\<close>. If the open of disk \<open>k\<close> then fails,
  \<^verbatim>\<open>Inspect\<close> returns that error annotated with \<open>k\<close> and no result, after closing
  the sessions \<open>ss\<close>: the handles closed are exactly the handles opened. If disk \<open>k\<close>
  opens with the session \<open>s\<close> and its wait for readiness (of 30 seconds) fails,
  \<^verbatim>\<open>Inspect\<close> returns that error annotated with \<open>k\<close> and no result, after closing
  \<open>ss\<close> and \<open>s\<close>. In both cases \<^verbatim>\<open>OpenWithNBDKitVDDK\<close> was called for the disks
  \<open>0\<close> to \<open>k\<close> only, readiness was awaited once for every session that opened, and the
  inspection command was not run. \<^verbatim>\<open>Inspect\<close> returns no session.
\<close>

theorem Inspect_rollback_on_session_failure:
  "(VirtInspector.logger i = Some lg \<and> k < length (BaseDiskPaths di)
    \<and> sessions_come_up env
          (\<lambda>p. OpenWithNBDKitVDDK env (VMMoref di) (SnapshotMoref di) p vcenterURL username password)
          (take k (BaseDiskPaths di)) (ext w) = Some (ss, e1)
    \<and> OpenWithNBDKitVDDK env (VMMoref di) (SnapshotMoref di) (BaseDiskPaths di ! k) vcenterURL
          username password e1 = (Inl er, e2)
    \<longrightarrow> Inspect env i vmName snapshotName vcenterURL datacenter username password (Some di) w
        = Returns ((None, Some (Errorf ''failed to start NBDkit session for disk %d: %w''
                                  [ArgInt (int k), ArgError er])),
            w\<lparr>ext := fold (NBDKit_Close env) ss e2,
              attempts := attempts w @ take (Suc k) (BaseDiskPaths di),
              opened := opened w @ map NBDKitSession ss,
              waited := waited w @ map NBDKitSession ss,
              closed := closed w @ map NBDKitSession ss\<rparr>))
   \<and> (VirtInspector.logger i = Some lg \<and> k < length (BaseDiskPaths di)
    \<and> sessions_come_up env
          (\<lambda>p. OpenWithNBDKitVDDK env (VMMoref di) (SnapshotMoref di) p vcenterURL username password)
          (take k (BaseDiskPaths di)) (ext w) = Some (ss, e1)
    \<and> OpenWithNBDKitVDDK env (VMMoref di) (SnapshotMoref di) (BaseDiskPaths di ! k) vcenterURL
          username password e1 = (Inr s, e2)
    \<and> NBDKit_WaitForReady env s (30 * 1000000000) e2 = (Some er, e3)
    \<longrightarrow> Inspect env i vmName snapshotName vcenterURL datacenter username password (Some di) w
        = Returns ((None, Some (Errorf ''NBD server not ready for disk %d: %w''
                                  [ArgInt (int k), ArgError er])),
            w\<lparr>ext := fold (NBDKit_Close env) (ss @ [s]) e3,
              attempts := attempts w @ take (Suc k) (BaseDiskPaths di),
              opened := opened w @ map NBDKitSession (ss @ [s]),
              waited := waited w @ map NBDKitSession (ss @ [s]),
              closed := closed w @ map NBDKitSession (ss @ [s])\<rparr>))"
proof -
  define opn where "opn = (\<lambda>p. OpenWithNBDKitVDDK env (VMMoref di) (SnapshotMoref di) p
                             vcenterURL username password)"
  define ps where "ps = BaseDiskPaths di"
  have split: "ps = take k ps @ (ps ! k) # drop (Suc k) ps" if "k < length ps"
    using that by (simp add: id_take_nth_drop)
  have len: "length (take k ps) = k" if "k < length ps"
    using that by simp
  have tk: "take (Suc k) ps = take k ps @ [ps ! k]" if "k < length ps"
    using that by (simp add: take_Suc_conv_app_nth)
  have insp: "Inspect env i vmName snapshotName vcenterURL datacenter username password (Some di) w
      = (case start_sessions env opn 0 ps [] [] w of
           (Inl e, w1) \<Rightarrow> Returns ((None, Some e), w1)
         | (Inr (nbdkitSessions, nbdURLs), w1) \<Rightarrow>
             (case run_virt_inspector env i nbdURLs w1 of
                (r, w2) \<Rightarrow> Returns (r, close_sessions env nbdkitSessions w2)))"
    if "VirtInspector.logger i = Some lg"
    using that by (simp add: Inspect_def UseVirtV2VOpen_def opn_def ps_def)
  have A: "Inspect env i vmName snapshotName vcenterURL datacenter username password (Some di) w
        = Returns ((None, Some (Errorf ''failed to start NBDkit session for disk %d: %w''
                                  [ArgInt (int k), ArgError er])),
            w\<lparr>ext := fold (NBDKit_Close env) ss e2,
              attempts := attempts w @ take (Suc k) ps,
              opened := opened w @ map NBDKitSession ss,
              waited := waited w @ map NBDKitSession ss,
              closed := closed w @ map NBDKitSession ss\<rparr>)"
    if lg: "VirtInspector.logger i = Some lg" and k: "k < length ps"
      and up: "sessions_come_up env opn (take k ps) (ext w) = Some (ss, e1)"
      and fl: "opn (ps ! k) e1 = (Inl er, e2)"
  proof -
    have "start_sessions env opn 0 ps [] [] w
        = start_sessions env opn 0 (take k ps @ (ps ! k) # drop (Suc k) ps) [] [] w"
      using split[OF k] by simp
    also have "\<dots> = (Inl (Errorf ''failed to start NBDkit session for disk %d: %w''
                                  [ArgInt (int k), ArgError er]),
            w\<lparr>ext := fold (NBDKit_Close env) ss e2,
              attempts := attempts w @ take (Suc k) ps,
              opened := opened w @ map NBDKitSession ss,
              waited := waited w @ map NBDKitSession ss,
              closed := closed w @ map NBDKitSession ss\<rparr>)"
      using fl len[OF k] tk[OF k]
      by (simp add: start_sessions_prefix[OF up] close_sessions_eq)
    finally show ?thesis using insp[OF lg] by simp
  qed
  have B: "Inspect env i vmName snapshotName vcenterURL datacenter username password (Some di) w
        = Returns ((None, Some (Errorf ''NBD server not ready for disk %d: %w''
                                  [ArgInt (int k), ArgError er])),
            w\<lparr>ext := fold (NBDKit_Close env) (ss @ [s]) e3,
              attempts := attempts w @ take (Suc k) ps,
              opened := opened w @ map NBDKitSession (ss @ [s]),
              waited := waited w @ map NBDKitSession (ss @ [s]),
              closed := closed w @ map NBDKitSession (ss @ [s])\<rparr>)"
    if lg: "VirtInspector.logger i = Some lg" and k: "k < length ps"
      and up: "sessions_come_up env opn (take k ps) (ext w) = Some (ss, e1)"
      and ok: "opn (ps ! k) e1 = (Inr s, e2)"
      and fl: "NBDKit_WaitForReady env s (30 * 1000000000) e2 = (Some er, e3)"
  proof -
    have "start_sessions env opn 0 ps [] [] w
        = start_sessions env opn 0 (take k ps @ (ps ! k) # drop (Suc k) ps) [] [] w"
      using split[OF k] by simp
    also have "\<dots> = (Inl (Errorf ''NBD server not ready for disk %d: %w''
                                  [ArgInt (int k), ArgError er]),
            w\<lparr>ext := fold (NBDKit_Close env) (ss @ [s]) e3,
              attempts := attempts w @ take (Suc k) ps,
              opened := opened w @ map NBDKitSession (ss @ [s]),
              waited := waited w @ map NBDKitSession (ss @ [s]),
              closed := closed w @ map NBDKitSession (ss @ [s])\<rparr>)"
      using ok fl len[OF k] tk[OF k]
      by (simp add: start_sessions_prefix[OF up] close_sessions_eq Let_def)
    finally show ?thesis using insp[OF lg] by simp
  qed
  from A B show ?thesis unfolding opn_def ps_def by blast
qed


theorem Inspect_rollback_on_session_failure_witness:
  "(VirtInspector.logger (NewVirtInspector [] 0 (Some Logger)) = Some Logger
    \<and> 2 < length (BaseDiskPaths (test_disks [''d0'', ''d1'', []]))
    \<and> sessions_come_up test_env
          (\<lambda>p. OpenWithNBDKitVDDK test_env ''vm-1'' ''snapshot-1'' p ''https://vc'' ''user'' ''secret'')
          (take 2 (BaseDiskPaths (test_disks [''d0'', ''d1'', []]))) []
        = Some ([''d0'', ''d1''], [''d1'', ''d0''])
    \<and> OpenWithNBDKitVDDK test_env ''vm-1'' ''snapshot-1''
          (BaseDiskPaths (test_disks [''d0'', ''d1'', []]) ! 2) ''https://vc'' ''user'' ''secret''
          [''d1'', ''d0'']
        = (Inl (ExternalError ''no such disk''), [''d1'', ''d0''])
    \<and> Inspect test_env (NewVirtInspector [] 0 (Some Logger)) ''vm1'' ''snap1'' ''https://vc''
          ''dc'' ''user'' ''secret'' (Some (test_disks [''d0'', ''d1'', []])) (new_world [])
        = Returns ((None, Some (Errorf ''failed to start NBDkit session for disk %d: %w''
                                  [ArgInt 2, ArgError (ExternalError ''no such disk'')])),
            \<lparr>ext = [], opened = [NBDKitSession ''d0'', NBDKitSession ''d1''],
             closed = [NBDKitSession ''d0'', NBDKitSession ''d1''],
             attempts = [''d0'', ''d1'', []],
             waited = [NBDKitSession ''d0'', NBDKitSession ''d1''],
             tool_runs = [], db_gets = [], db_sets = []\<rparr>))
   \<and> (VirtInspector.logger (NewVirtInspector [] 0 (Some Logger)) = Some Logger
    \<and> 1 < length (BaseDiskPaths (test_disks [''d0'', ''slow'', ''d2'']))
    \<and> sessions_come_up test_env
          (\<lambda>p. OpenWithNBDKitVDDK test_env ''vm-1'' ''snapshot-1'' p ''https://vc'' ''user'' ''secret'')
          (take 1 (BaseDiskPaths (test_disks [''d0'', ''slow'', ''d2'']))) []
        = Some ([''d0''], [''d0''])
    \<and> OpenWithNBDKitVDDK test_env ''vm-1'' ''snapshot-1''
          (BaseDiskPaths (test_disks [''d0'', ''slow'', ''d2'']) ! 1) ''https://vc'' ''user''
          ''secret'' [''d0'']
        = (Inr ''slow'', [''slow'', ''d0''])
    \<and> NBDKit_WaitForReady test_env ''slow'' (30 * 1000000000) [''slow'', ''d0'']
        = (Some (ExternalError ''timeout''), [''slow'', ''d0''])
    \<and> Inspect test_env (NewVirtInspector [] 0 (Some Logger)) ''vm1'' ''snap1'' ''https://vc''
          ''dc'' ''user'' ''secret'' (Some (test_disks [''d0'', ''slow'', ''d2''])) (new_world [])
        = Returns ((None, Some (Errorf ''NBD server not ready for disk %d: %w''
                                  [ArgInt 1, ArgError (ExternalError ''timeout'')])),
            \<lparr>ext = [], opened = [NBDKitSession ''d0'', NBDKitSession ''slow''],
             closed = [NBDKitSession ''d0'', NBDKitSession ''slow''],
             attempts = [''d0'', ''slow''],
             waited = [NBDKitSession ''d0'', NBDKitSession ''slow''],
             tool_runs = [], db_gets = [], db_sets = []\<rparr>))"
proof -
  let ?i = "NewVirtInspector [] 0 (Some Logger)"
  let ?w = "new_world [] :: (string list, string) world"
  let ?d = "test_disks [''d0'', ''d1'', []]"
  let ?f = "test_disks [''d0'', ''slow'', ''d2'']"
  have h1: "VirtInspector.logger ?i = Some Logger \<and> 2 < length (BaseDiskPaths ?d)
    \<and> sessions_come_up test_env
          (\<lambda>p. OpenWithNBDKitVDDK test_env (VMMoref ?d) (SnapshotMoref ?d) p ''https://vc''
                 ''user'' ''secret'')
          (take 2 (BaseDiskPaths ?d)) (ext ?w) = Some ([''d0'', ''d1''], [''d1'', ''d0''])
    \<and> OpenWithNBDKitVDDK test_env (VMMoref ?d) (SnapshotMoref ?d) (BaseDiskPaths ?d ! 2)
          ''https://vc'' ''user'' ''secret'' [''d1'', ''d0'']
        = (Inl (ExternalError ''no such disk''), [''d1'', ''d0''])"
    by (simp add: NewVirtInspector_def test_disks_def test_env_def new_world_def
        numeral_2_eq_2)
  have h2: "VirtInspector.logger ?i = Some Logger \<and> 1 < length (BaseDiskPaths ?f)
    \<and> sessions_come_up test_env
          (\<lambda>p. OpenWithNBDKitVDDK test_env (VMMoref ?f) (SnapshotMoref ?f) p ''https://vc''
                 ''user'' ''secret'')
          (take 1 (BaseDiskPaths ?f)) (ext ?w) = Some ([''d0''], [''d0''])
    \<and> OpenWithNBDKitVDDK test_env (VMMoref ?f) (SnapshotMoref ?f) (BaseDiskPaths ?f ! 1)
          ''https://vc'' ''user'' ''secret'' [''d0'']
        = (Inr ''slow'', [''slow'', ''d0''])
    \<and> NBDKit_WaitForReady test_env ''slow'' (30 * 1000000000) [''slow'', ''d0'']
        = (Some (ExternalError ''timeout''), [''slow'', ''d0''])"
    by (simp add: NewVirtInspector_def test_disks_def test_env_def new_world_def)
  note c1 = Inspect_rollback_on_session_failure[THEN conjunct1, THEN mp, OF h1,
      of "''vm1''" "''snap1''" "''dc''"]
  note c2 = Inspect_rollback_on_session_failure[THEN conjunct2, THEN mp, OF h2,
      of "''vm1''" "''snap1''" "''dc''"]
  from h1 h2 c1 c2 show ?thesis
    by (simp add: test_disks_def test_env_def new_world_def numeral_2_eq_2)
qed

text \<open>
  C6. When \<^verbatim>\<open>Inspect\<close> returns, whatever it returns, the handles passed to a close during
  the call are exactly the handles that opens returned during the call, each once. The
  proof does not depend on the value of \<^verbatim>\<open>UseVirtV2VOpen\<close>. \<^verbatim>\<open>Inspect\<close> never blocks
  in the model, and it panics exactly when the logger is nil or, in the per-disk mode, the
  disk information is nil: both are read before any session is opened.
\<close>

theorem Inspect_closes_every_session:
  "(Inspect env i vmName snapshotName vcenterURL datacenter username password diskInfo w
      = Returns (res, w')
    \<longrightarrow> (\<exists>new. opened w' = opened w @ new \<and> closed w' = closed w @ new))
   \<and> (Inspect env i vmName snapshotName vcenterURL datacenter username password diskInfo w
        = Panics)
     = (VirtInspector.logger i = None \<or> (\<not> UseVirtV2VOpen \<and> diskInfo = None))
   \<and> Inspect env i vmName snapshotName vcenterURL datacenter username password diskInfo w
       \<noteq> Blocks"
proof (intro conjI impI)
  assume ret: "Inspect env i vmName snapshotName vcenterURL datacenter username password diskInfo w
      = Returns (res, w')"
  show "\<exists>new. opened w' = opened w @ new \<and> closed w' = closed w @ new"
  proof (cases UseVirtV2VOpen)
    case True
    with ret obtain lg where lg: "VirtInspector.logger i = Some lg"
      by (auto simp: Inspect_def split: option.splits)
    obtain o1 e1 where op: "OpenWithVirtV2V env vmName datacenter snapshotName vcenterURL username
                     password (ext w) = (o1, e1)" by force
    show ?thesis
    proof (cases o1)
      case (Inl err)
      with ret True lg op have "w' = w\<lparr>ext := e1\<rparr>" by (simp add: Inspect_def)
      then show ?thesis by simp
    next
      case (Inr s)
      define w1 where "w1 = w\<lparr>ext := e1, opened := opened w @ [V2V s]\<rparr>"
      obtain r w2 where rn: "run_virt_inspector env i [NBDURL s] w1 = (r, w2)"
        by (metis surj_pair)
      obtain e3 where cl: "V2VSession_Close env (Some s) (ext w2) = Returns e3"
        using V2VSession_Close_Returns[of env "Some s" "ext w2"] by blast
      from ret True lg op Inr rn cl have "w' = w2\<lparr>ext := e3, closed := closed w2 @ [V2V s]\<rparr>"
        by (simp add: Inspect_def w1_def Let_def)
      with run_virt_inspector_ghost[OF rn] show ?thesis
        by (intro exI[of _ "[V2V s]"]) (simp add: w1_def)
    qed
  next
    case False
    with ret obtain lg di where lg: "VirtInspector.logger i = Some lg" and di: "diskInfo = Some di"
      by (auto simp: Inspect_def split: option.splits)
    define opn where "opn = (\<lambda>baseDiskPath. OpenWithNBDKitVDDK env (VMMoref di) (SnapshotMoref di)
                             baseDiskPath vcenterURL username password)"
    obtain o1 w1 where st: "start_sessions env opn 0 (BaseDiskPaths di) [] [] w = (o1, w1)"
      by force
    show ?thesis
    proof (cases o1)
      case (Inl err)
      with ret False lg di st have "w' = w1" by (simp add: Inspect_def opn_def)
      with start_sessions_Inl[of env opn 0 "BaseDiskPaths di" "[]" "[]" w err w1] st Inl
      show ?thesis by auto
    next
      case (Inr p)
      obtain ss us where p: "p = (ss, us)" by force
      obtain r w2 where rn: "run_virt_inspector env i us w1 = (r, w2)"
        by (metis surj_pair)
      from ret False lg di st Inr p rn have "w' = close_sessions env ss w2"
        by (simp add: Inspect_def opn_def)
      with start_sessions_Inr[of env opn 0 "BaseDiskPaths di" "[]" "[]" w ss us w1] st Inr p
        run_virt_inspector_ghost[OF rn]
      show ?thesis by (auto simp: close_sessions_closed close_sessions_ghost)
    qed
  qed
next
  show "(Inspect env i vmName snapshotName vcenterURL datacenter username password diskInfo w
        = Panics)
     = (VirtInspector.logger i = None \<or> (\<not> UseVirtV2VOpen \<and> diskInfo = None))"
    by (auto simp: Inspect_def Let_def split: option.splits prod.splits sum.splits outcome.splits)
next
  show "Inspect env i vmName snapshotName vcenterURL datacenter username password diskInfo w
       \<noteq> Blocks"
    by (auto simp: Inspect_def Let_def split: option.splits prod.splits sum.splits outcome.splits)
qed

theorem Inspect_closes_every_session_witness:
  "Inspect test_env (NewVirtInspector [] 0 (Some Logger)) ''vm1'' ''snap1'' ''https://vc'' ''dc''
      ''user'' ''secret'' (Some (test_disks [''d0'', ''d1''])) (new_world [])
     = Returns ((Some \<lparr>Operatingsystems = [test_os]\<rparr>, None),
         \<lparr>ext = [], opened = [NBDKitSession ''d0'', NBDKitSession ''d1''],
          closed = [NBDKitSession ''d0'', NBDKitSession ''d1''],
          attempts = [''d0'', ''d1''],
          waited = [NBDKitSession ''d0'', NBDKitSession ''d1''],
          tool_runs = [''unset LD_LIBRARY_PATH && virt-inspector''
                        @ aOptions [''nbd://localhost/d0'', ''nbd://localhost/d1'']],
          db_gets = [], db_sets = []\<rparr>)
   \<and> (\<exists>new. [NBDKitSession ''d0'', NBDKitSession ''d1''] = [] @ new
          \<and> [NBDKitSession ''d0'', NBDKitSession ''d1''] = [] @ (new :: string session list))"
proof -
  have run: "Inspect test_env (NewVirtInspector [] 0 (Some Logger)) ''vm1'' ''snap1'' ''https://vc''
      ''dc'' ''user'' ''secret'' (Some (test_disks [''d0'', ''d1''])) (new_world [])
     = Returns ((Some \<lparr>Operatingsystems = [test_os]\<rparr>, None),
         \<lparr>ext = [], opened = [NBDKitSession ''d0'', NBDKitSession ''d1''],
          closed = [NBDKitSession ''d0'', NBDKitSession ''d1''],
          attempts = [''d0'', ''d1''],
          waited = [NBDKitSession ''d0'', NBDKitSession ''d1''],
          tool_runs = [''unset LD_LIBRARY_PATH && virt-inspector''
                        @ aOptions [''nbd://localhost/d0'', ''nbd://localhost/d1'']],
          db_gets = [], db_sets = []\<rparr>)"
    by (simp add: Inspect_def UseVirtV2VOpen_def NewVirtInspector_def test_env_def test_disks_def
        new_world_def close_sessions_def close_session_def run_virt_inspector_def
        parseInspectionXML_def)
  from Inspect_closes_every_session[THEN conjunct1, THEN mp, OF run] show ?thesis
    using run by (simp add: new_world_def)
qed

text \<open>
  C8. \<^verbatim>\<open>V2VSession.Close\<close> on a nil receiver returns at once and changes nothing. On any
  handle and with any operating system it returns: it does not panic and does not block.
  On the reference operating system a close leaves the handle's process reaped and its
  auth file absent, whatever their state before, and touches nothing else; a handle with
  no command, or whose command has no process, has only its auth file removed. So a second
  close of the same handle, which makes the same calls again and drops their errors,
  leaves the state as the first close left it.
\<close>

theorem V2VSession_Close_idempotent:
  "V2VSession_Close sys None w = Returns w
   \<and> (\<exists>w1. V2VSession_Close sys s w = Returns w1)
   \<and> V2VSession_Close ref_os
        (Some \<lparr>NBDURL = u, cmd = Some \<lparr>Path = a, Args = b, Env = c, Process = Some p\<rparr>,
               authFile = f\<rparr>) v
       = Returns (v\<lparr>procs := (procs v)(p := Reaped), files := files v - (if f = [] then {} else {f})\<rparr>)
   \<and> V2VSession_Close ref_os
        (Some \<lparr>NBDURL = u, cmd = Some \<lparr>Path = a, Args = b, Env = c, Process = None\<rparr>,
               authFile = f\<rparr>) v
       = Returns (v\<lparr>files := files v - (if f = [] then {} else {f})\<rparr>)
   \<and> V2VSession_Close ref_os (Some \<lparr>NBDURL = u, cmd = None, authFile = f\<rparr>) v
       = Returns (v\<lparr>files := files v - (if f = [] then {} else {f})\<rparr>)
   \<and> (\<exists>v1. V2VSession_Close ref_os s v = Returns v1 \<and> V2VSession_Close ref_os s v1 = Returns v1)"
proof -
  have first: "V2VSession_Close sys None w = Returns w"
    by (simp add: V2VSession_Close_def)
  have ret: "\<exists>w1. V2VSession_Close sys s w = Returns w1"
    by (simp add: V2VSession_Close_def Let_def split: option.splits)
  have kw: "snd (ref_Wait q (snd (ref_Kill q x))) = x\<lparr>procs := (procs x)(q := Reaped)\<rparr>" for q x
    by (cases "procs x q") (simp_all add: ref_Kill_def ref_Wait_def fun_upd_idem)
  have rm: "snd (ref_Remove g x) = x\<lparr>files := files x - {g}\<rparr>" for g x
    by (simp add: ref_Remove_def)
  have full: "V2VSession_Close ref_os
        (Some \<lparr>NBDURL = u, cmd = Some \<lparr>Path = a, Args = b, Env = c, Process = Some p\<rparr>,
               authFile = f\<rparr>) v
       = Returns (v\<lparr>procs := (procs v)(p := Reaped), files := files v - (if f = [] then {} else {f})\<rparr>)"
    by (simp add: V2VSession_Close_def ref_os_def kw rm)
  have noproc: "V2VSession_Close ref_os
        (Some \<lparr>NBDURL = u, cmd = Some \<lparr>Path = a, Args = b, Env = c, Process = None\<rparr>,
               authFile = f\<rparr>) v
       = Returns (v\<lparr>files := files v - (if f = [] then {} else {f})\<rparr>)"
    by (simp add: V2VSession_Close_def ref_os_def rm)
  have nocmd: "V2VSession_Close ref_os (Some \<lparr>NBDURL = u, cmd = None, authFile = f\<rparr>) v
       = Returns (v\<lparr>files := files v - (if f = [] then {} else {f})\<rparr>)"
    by (simp add: V2VSession_Close_def ref_os_def rm)
  have twice: "\<exists>v1. V2VSession_Close ref_os s v = Returns v1 \<and> V2VSession_Close ref_os s v1 = Returns v1"
    by (auto simp add: V2VSession_Close_def ref_os_def kw rm Let_def split: option.splits)
  from first ret full noproc nocmd twice show ?thesis by blast
qed

end
